theory Spec2Isabelle
  imports Main
begin

section \<open>Tables of the persistence gateway\<close>

text \<open>
  The application keeps its state in three SQLite tables that the lifecycle routes read
  and write: \<open>user\<close>, \<open>request\<close> and \<open>bid\<close>. A table is the list of its rows, a row is a
  record of the columns the routes name. Column names carry the SQL alias the queries use
  (\<open>u.\<close>, \<open>r.\<close>, \<open>b.\<close>) where two tables share a column name. Status columns hold the very
  strings the statements compare and assign. A date column holds the calendar day (a day
  number) that the stored \<open>%Y-%m-%d %H:%M:%S\<close> text denotes. The \<open>created_date\<close>
  columns are only used to order listings and are left out.
\<close>

record user =
  u_id :: int
  u_company :: string
  user_type :: string

record request =
  r_id :: int
  r_created_by :: int
  collection_date :: int
  delivery_date :: int
  collection_address :: string
  delivery_address :: string
  pallets :: string
  weight :: "int option"
  r_company :: string
  request_status :: string

record bid =
  b_id :: int
  b_request_id :: int
  b_created_by :: int
  bid_amount :: string
  bid_status :: string

record database =
  user_tbl :: "user list"
  request_tbl :: "request list"
  bid_tbl :: "bid list"

text \<open>
  Modelled from the spec: \<open>schema.sql\<close> is not among the sources. The two INSERT statements
  of the routes leave the status column to the schema's default; the spec gives the
  initial status of a request as "Awaiting bids" and of a bid as "Pending".
\<close>

definition default_request_status :: string where
  "default_request_status = ''Awaiting bids''"

definition default_bid_status :: string where
  "default_bid_status = ''Pending''"

subsection \<open>SQL statements on a table\<close>

definition fetchone :: "'a list \<Rightarrow> 'a option" where
  "fetchone rows = (case rows of [] \<Rightarrow> None | x # _ \<Rightarrow> Some x)"

definition sql_update :: "('a \<Rightarrow> bool) \<Rightarrow> ('a \<Rightarrow> 'a) \<Rightarrow> 'a list \<Rightarrow> 'a list" where
  "sql_update cond set_cols rows = map (\<lambda>row. if cond row then set_cols row else row) rows"

definition sql_delete :: "('a \<Rightarrow> bool) \<Rightarrow> 'a list \<Rightarrow> 'a list" where
  "sql_delete cond rows = filter (\<lambda>row. \<not> cond row) rows"

definition sql_insert :: "'a \<Rightarrow> 'a list \<Rightarrow> 'a list" where
  "sql_insert row rows = rows @ [row]"

text \<open>
  \<open>LEFT JOIN\<close>: every row of the left table, paired with each matching row of the right
  table, or with NULL (\<open>None\<close>) when no row matches.
\<close>

definition left_join :: "'a list \<Rightarrow> 'b list \<Rightarrow> ('a \<Rightarrow> 'b \<Rightarrow> bool) \<Rightarrow> ('a \<times> 'b option) list" where
  "left_join ls rs on_cond =
     concat (map (\<lambda>l. case filter (on_cond l) rs of
                         [] \<Rightarrow> [(l, None)]
                       | ms \<Rightarrow> map (\<lambda>m. (l, Some m)) ms) ls)"

section \<open>Responses of a view\<close>

text \<open>
  A view returns a redirect or a rendered template, returns nothing at all (Flask then has
  no response to send), aborts with an HTTP status, or lets a Python exception escape.
  Messages passed to \<open>flash\<close> are collected with their category. The outcome of a call is
  the response, the flashed messages and the committed database.
\<close>

datatype py_exception = TypeError | AttributeError

datatype response =
    Redirect string "int option"
  | Render string
  | ReturnedNone
  | Abort nat
  | Raised py_exception

record outcome =
  response :: response
  flashed :: "(string \<times> string) list"
  db_of :: database

datatype http_method = GET | POST

text \<open>
  The statements inside a \<open>try\<close> block run against the gateway, which may raise. The
  parameter \<open>gw\<close> of a view is \<open>None\<close> when every statement and the commit succeed, and
  \<open>Some e\<close> when the gateway raises an exception with text \<open>e\<close> inside the block; the
  handler then rolls back, so the database is the one the view started from.
\<close>

section \<open>auth.py: role gates\<close>

text \<open>
  \<open>g.user\<close> is the row of the logged-in user or \<open>None\<close>. Both decorators subscript it
  without a check, which raises \<open>TypeError\<close> on \<open>None\<close>.
\<close>

definition customer_only :: "user option \<Rightarrow> database \<Rightarrow> (user \<Rightarrow> outcome) \<Rightarrow> outcome" where
  "customer_only g_user db f =
     (case g_user of
        None \<Rightarrow> \<lparr>response = Raised TypeError, flashed = [], db_of = db\<rparr>
      | Some u \<Rightarrow>
          if user_type u \<noteq> ''Customer''
          then \<lparr>response = Redirect ''auth.login'' None, flashed = [], db_of = db\<rparr>
          else f u)"

definition supplier_only :: "user option \<Rightarrow> database \<Rightarrow> (user \<Rightarrow> outcome) \<Rightarrow> outcome" where
  "supplier_only g_user db f =
     (case g_user of
        None \<Rightarrow> \<lparr>response = Raised TypeError, flashed = [], db_of = db\<rparr>
      | Some u \<Rightarrow>
          if user_type u \<noteq> ''Supplier''
          then \<lparr>response = Redirect ''auth.login'' None, flashed = [], db_of = db\<rparr>
          else f u)"

section \<open>forms.py: the validators of the request form\<close>

text \<open>
  The data of the request form as the views read it. A date field whose text does not
  parse has data \<open>None\<close>.
\<close>

record request_form =
  f_collection_address :: string
  f_delivery_address :: string
  f_pallets :: string
  f_weight :: "int option"
  f_collection_date :: "int option"
  f_delivery_date :: "int option"

datatype validation = Valid | ValidationError string

definition validate_collectionBy :: "int \<Rightarrow> int \<Rightarrow> validation" where
  "validate_collectionBy today field_data =
     (if field_data < today then ValidationError ''The must be in the future'' else Valid)"

definition validate_deliveryBy :: "int \<Rightarrow> int \<Rightarrow> validation" where
  "validate_deliveryBy form_collection_date field_data =
     (if field_data \<le> form_collection_date
      then ValidationError ''The delivery date must not be prior to the collection date''
      else Valid)"

section \<open>customer\_routes.py\<close>

definition create_request_view ::
  "database \<Rightarrow> string option \<Rightarrow> http_method \<Rightarrow> request_form \<Rightarrow> int \<Rightarrow> user \<Rightarrow> outcome" where
  "create_request_view db gw meth form new_id g_user =
     (case meth of
        GET \<Rightarrow> \<lparr>response = Render ''/customer/requests/create_request.html'', flashed = [], db_of = db\<rparr>
      | POST \<Rightarrow>
         (case f_collection_date form of
            None \<Rightarrow> \<lparr>response = Raised AttributeError, flashed = [], db_of = db\<rparr>
          | Some cd \<Rightarrow>
             (case f_delivery_date form of
                None \<Rightarrow> \<lparr>response = Raised AttributeError, flashed = [], db_of = db\<rparr>
              | Some dd \<Rightarrow>
                 (case gw of
                    None \<Rightarrow>
                      \<lparr>response = Redirect ''customer_routes.customer_requests'' None,
                       flashed = [],
                       db_of = db\<lparr>request_tbl :=
                         sql_insert
                           \<lparr>r_id = new_id, r_created_by = u_id g_user,
                            collection_date = cd, delivery_date = dd,
                            collection_address = f_collection_address form,
                            delivery_address = f_delivery_address form,
                            pallets = f_pallets form, weight = f_weight form,
                            r_company = u_company g_user,
                            request_status = default_request_status\<rparr>
                           (request_tbl db)\<rparr>\<rparr>
                  | Some e \<Rightarrow>
                      \<lparr>response = Render ''/customer/requests/create_request.html'',
                       flashed = [(''An error occurred while creating the request: '' @ e, ''error'')],
                       db_of = db\<rparr>))))"

definition create_request ::
  "user option \<Rightarrow> database \<Rightarrow> string option \<Rightarrow> http_method \<Rightarrow> request_form \<Rightarrow> int \<Rightarrow> outcome" where
  "create_request g_user db gw meth form new_id =
     customer_only g_user db (create_request_view db gw meth form new_id)"

text \<open>
  The single-row SELECT statements of the routes: \<open>SELECT request_status FROM request
  WHERE id = ?\<close> and \<open>SELECT request_id FROM bid WHERE id = ?\<close>, each followed by
  \<open>fetchone()\<close>. \<open>select_bid_status\<close> reads the status column of the same row; the
  routes do not run it, the properties below use it to observe a bid.
\<close>

definition select_request_status :: "database \<Rightarrow> int \<Rightarrow> string option" where
  "select_request_status db ident =
     fetchone (map request_status (filter (\<lambda>r. r_id r = ident) (request_tbl db)))"

definition select_bid_request_id :: "database \<Rightarrow> int \<Rightarrow> int option" where
  "select_bid_request_id db bid_id =
     fetchone (map b_request_id (filter (\<lambda>b. b_id b = bid_id) (bid_tbl db)))"

definition select_bid_status :: "database \<Rightarrow> int \<Rightarrow> string option" where
  "select_bid_status db bid_id =
     fetchone (map bid_status (filter (\<lambda>b. b_id b = bid_id) (bid_tbl db)))"

definition customer_get_request :: "database \<Rightarrow> int \<Rightarrow> request option" where
  "customer_get_request db ident = fetchone (filter (\<lambda>r. r_id r = ident) (request_tbl db))"

definition remove_request_view :: "database \<Rightarrow> string option \<Rightarrow> int \<Rightarrow> user \<Rightarrow> outcome" where
  "remove_request_view db gw ident g_user =
     (case select_request_status db ident of
        None \<Rightarrow>
          \<lparr>response = Redirect ''customer_routes.customer_requests'' None,
           flashed = [(''Request does not exist. No request to remove.'', ''error'')],
           db_of = db\<rparr>
      | Some st \<Rightarrow>
          if st = ''Complete''
          then \<lparr>response = ReturnedNone,
                flashed = [(''Request is complete. Unable to remove.'', ''error'')],
                db_of = db\<rparr>
          else
            (case gw of
               None \<Rightarrow>
                 \<lparr>response = Redirect ''customer_routes.customer_requests'' None,
                  flashed = [(''Request deleted successfully.'', ''success'')],
                  db_of = db\<lparr>request_tbl := sql_delete (\<lambda>r. r_id r = ident) (request_tbl db)\<rparr>\<rparr>
             | Some e \<Rightarrow>
                 \<lparr>response = Redirect ''customer_routes.customer_requests'' None,
                  flashed = [(''An error has occurred while attempting to delete the request: '' @ e, ''error'')],
                  db_of = db\<rparr>))"

definition remove_request :: "user option \<Rightarrow> database \<Rightarrow> string option \<Rightarrow> int \<Rightarrow> outcome" where
  "remove_request g_user db gw ident = customer_only g_user db (remove_request_view db gw ident)"

definition update_request_view ::
  "database \<Rightarrow> string option \<Rightarrow> http_method \<Rightarrow> request_form \<Rightarrow> int \<Rightarrow> user \<Rightarrow> outcome" where
  "update_request_view db gw meth form ident g_user =
     (case customer_get_request db ident of
        None \<Rightarrow> \<lparr>response = Abort 404, flashed = [], db_of = db\<rparr>
      | Some this_request \<Rightarrow>
         (case meth of
            GET \<Rightarrow> \<lparr>response = Render ''/customer/requests/update_request.html'', flashed = [], db_of = db\<rparr>
          | POST \<Rightarrow>
             (case f_collection_date form of
                None \<Rightarrow> \<lparr>response = Raised AttributeError, flashed = [], db_of = db\<rparr>
              | Some cd \<Rightarrow>
                 (case f_delivery_date form of
                    None \<Rightarrow> \<lparr>response = Raised AttributeError, flashed = [], db_of = db\<rparr>
                  | Some dd \<Rightarrow>
                     (case gw of
                        None \<Rightarrow>
                          \<lparr>response = Redirect ''customer_routes.view_request'' (Some ident),
                           flashed = [(''Request updated successfully.'', ''success'')],
                           db_of = db\<lparr>request_tbl :=
                             sql_update (\<lambda>r. r_id r = r_id this_request)
                               (\<lambda>r. r\<lparr>collection_address := f_collection_address form,
                                       delivery_address := f_delivery_address form,
                                       collection_date := cd, delivery_date := dd,
                                       pallets := f_pallets form, weight := f_weight form\<rparr>)
                               (request_tbl db)\<rparr>\<rparr>
                      | Some e \<Rightarrow>
                          \<lparr>response = Render ''/customer/requests/update_request.html'',
                           flashed = [(''An error has occurred while attempting to update the request: '' @ e, ''error'')],
                           db_of = db\<rparr>)))))"

definition update_request ::
  "user option \<Rightarrow> database \<Rightarrow> string option \<Rightarrow> http_method \<Rightarrow> request_form \<Rightarrow> int \<Rightarrow> outcome" where
  "update_request g_user db gw meth form ident =
     customer_only g_user db (update_request_view db gw meth form ident)"

definition accept_bid_view :: "database \<Rightarrow> string option \<Rightarrow> int \<Rightarrow> user \<Rightarrow> outcome" where
  "accept_bid_view db gw bid_id g_user =
     (case select_bid_request_id db bid_id of
        None \<Rightarrow> \<lparr>response = ReturnedNone, flashed = [], db_of = db\<rparr>
      | Some request_id \<Rightarrow>
         (case gw of
            None \<Rightarrow>
              \<lparr>response = Redirect ''customer_routes.view_request'' (Some request_id),
               flashed = [],
               db_of = db
                 \<lparr>request_tbl :=
                    sql_update (\<lambda>r. r_id r = request_id) (\<lambda>r. r\<lparr>request_status := ''Complete''\<rparr>)
                      (request_tbl db),
                  bid_tbl :=
                    sql_update (\<lambda>b. b_request_id b = request_id \<and> b_id b \<noteq> bid_id)
                      (\<lambda>b. b\<lparr>bid_status := ''Rejected''\<rparr>)
                      (sql_update (\<lambda>b. b_id b = bid_id) (\<lambda>b. b\<lparr>bid_status := ''Accepted''\<rparr>)
                         (bid_tbl db))\<rparr>\<rparr>
          | Some e \<Rightarrow>
              \<lparr>response = ReturnedNone,
               flashed = [(''An error has occurred while accepting the request: '' @ e, ''error'')],
               db_of = db\<rparr>))"

definition accept_bid :: "user option \<Rightarrow> database \<Rightarrow> string option \<Rightarrow> int \<Rightarrow> outcome" where
  "accept_bid g_user db gw bid_id = customer_only g_user db (accept_bid_view db gw bid_id)"

text \<open>
  \<open>reject_bid\<close> subscripts the fetched row (\<open>request_id[0]\<close>) to build the parameters of
  its counting query, before the \<open>try\<close> block and before it tests the row: with no such
  bid the row is \<open>None\<close> and the subscript raises \<open>TypeError\<close>.
\<close>

definition counted_bids :: "database \<Rightarrow> int \<Rightarrow> bid list" where
  "counted_bids db request_id =
     filter (\<lambda>b. bid_status b \<noteq> ''Rejected'' \<and> b_request_id b = request_id) (bid_tbl db)"

definition number_of_bids :: "database \<Rightarrow> int \<Rightarrow> nat" where
  "number_of_bids db request_id = length (counted_bids db request_id)"

definition reject_bid_view :: "database \<Rightarrow> string option \<Rightarrow> int \<Rightarrow> user \<Rightarrow> outcome" where
  "reject_bid_view db gw bid_id g_user =
     (case select_bid_request_id db bid_id of
        None \<Rightarrow> \<lparr>response = Raised TypeError, flashed = [], db_of = db\<rparr>
      | Some request_id \<Rightarrow>
         (let count = number_of_bids db request_id in
          case gw of
            None \<Rightarrow>
              \<lparr>response = Redirect ''customer_routes.view_request'' (Some request_id),
               flashed = [],
               db_of = db
                 \<lparr>request_tbl :=
                    (if count = 1
                     then sql_update (\<lambda>r. r_id r = request_id)
                            (\<lambda>r. r\<lparr>request_status := ''Awaiting bids''\<rparr>) (request_tbl db)
                     else request_tbl db),
                  bid_tbl :=
                    sql_update (\<lambda>b. b_id b = bid_id) (\<lambda>b. b\<lparr>bid_status := ''Rejected''\<rparr>)
                      (bid_tbl db)\<rparr>\<rparr>
          | Some e \<Rightarrow>
              \<lparr>response = ReturnedNone,
               flashed = [(''An error has occurred while attempting to reject the request: '' @ e, ''error'')],
               db_of = db\<rparr>))"

definition reject_bid :: "user option \<Rightarrow> database \<Rightarrow> string option \<Rightarrow> int \<Rightarrow> outcome" where
  "reject_bid g_user db gw bid_id = customer_only g_user db (reject_bid_view db gw bid_id)"

section \<open>supplier\_routes.py\<close>

text \<open>
  The dashboard runs three SELECT statements for the company of the caller. Each is
  written as its joins, its WHERE clause with the three-valued comparisons resolved
  (\<open>=\<close> against NULL does not hold, \<open>is not\<close> against NULL does), and its ORDER BY.
  The rows of the second and third list carry the request columns and \<open>b.id AS bid_id\<close>.
\<close>

definition company_bids :: "database \<Rightarrow> string \<Rightarrow> (bid \<times> user option) list" where
  "company_bids db user_company =
     filter (\<lambda>(b, u). map_option u_company u = Some user_company)
       (left_join (bid_tbl db) (user_tbl db) (\<lambda>b u. u_id u = b_created_by b))"

definition live_requests_not_bid :: "database \<Rightarrow> string \<Rightarrow> request list" where
  "live_requests_not_bid db user_company =
     sort_key r_id
       (map fst
         (filter (\<lambda>(r, cb). (case cb of None \<Rightarrow> None | Some (b, u) \<Rightarrow> map_option u_company u)
                               \<noteq> Some user_company
                             \<and> request_status r \<noteq> ''Complete'')
           (left_join (request_tbl db) (company_bids db user_company)
              (\<lambda>r (b, u). b_request_id b = r_id r))))"

definition request_bid_user :: "database \<Rightarrow> ((request \<times> bid option) \<times> user option) list" where
  "request_bid_user db =
     left_join (left_join (request_tbl db) (bid_tbl db) (\<lambda>r b. r_id r = b_request_id b))
       (user_tbl db)
       (\<lambda>(r, b) u. case b of None \<Rightarrow> False | Some b' \<Rightarrow> u_id u = b_created_by b')"

definition requests_bid :: "database \<Rightarrow> string \<Rightarrow> (request \<times> int option) list" where
  "requests_bid db user_company =
     sort_key (\<lambda>(r, bid_id). r_id r)
       (map (\<lambda>((r, b), u). (r, map_option b_id b))
         (filter (\<lambda>((r, b), u). map_option b_id b \<noteq> None
                                 \<and> map_option u_company u = Some user_company
                                 \<and> request_status r \<noteq> ''Complete'')
           (request_bid_user db)))"

definition requests_bid_won :: "database \<Rightarrow> string \<Rightarrow> (request \<times> int option) list" where
  "requests_bid_won db user_company =
     sort_key (\<lambda>(r, bid_id). r_id r)
       (map (\<lambda>((r, b), u). (r, map_option b_id b))
         (filter (\<lambda>((r, b), u). map_option bid_status b \<noteq> Some ''Rejected''
                                 \<and> map_option u_company u = Some user_company
                                 \<and> request_status r = ''Complete'')
           (request_bid_user db)))"

record dashboard =
  ctx_live_requests_not_bid :: "request list"
  ctx_requests_bid :: "(request \<times> int option) list"
  ctx_requests_bid_won :: "(request \<times> int option) list"

definition supplier_requests_view :: "database \<Rightarrow> user \<Rightarrow> dashboard" where
  "supplier_requests_view db g_user =
     \<lparr>ctx_live_requests_not_bid = live_requests_not_bid db (u_company g_user),
      ctx_requests_bid = requests_bid db (u_company g_user),
      ctx_requests_bid_won = requests_bid_won db (u_company g_user)\<rparr>"

definition submit_bid_view ::
  "database \<Rightarrow> string option \<Rightarrow> http_method \<Rightarrow> string \<Rightarrow> int \<Rightarrow> int \<Rightarrow> user \<Rightarrow> outcome" where
  "submit_bid_view db gw meth form_bid_amount ident new_id g_user =
     (case meth of
        GET \<Rightarrow> \<lparr>response = Render ''supplier/submit_bid.html'', flashed = [], db_of = db\<rparr>
      | POST \<Rightarrow>
         (case gw of
            None \<Rightarrow>
              \<lparr>response = Redirect ''supplier_routes.my_bids'' None,
               flashed = [],
               db_of = db
                 \<lparr>request_tbl :=
                    sql_update (\<lambda>r. r_id r = ident)
                      (\<lambda>r. r\<lparr>request_status := ''Bid(s) received''\<rparr>) (request_tbl db),
                  bid_tbl :=
                    sql_insert
                      \<lparr>b_id = new_id, b_request_id = ident, b_created_by = u_id g_user,
                       bid_amount = form_bid_amount, bid_status = default_bid_status\<rparr>
                      (bid_tbl db)\<rparr>\<rparr>
          | Some e \<Rightarrow>
              \<lparr>response = Render ''supplier/submit_bid.html'',
               flashed = [(''An error occurred while submitting the bid: '' @ e, ''error'')],
               db_of = db\<rparr>))"

definition submit_bid ::
  "user option \<Rightarrow> database \<Rightarrow> string option \<Rightarrow> http_method \<Rightarrow> string \<Rightarrow> int \<Rightarrow> int \<Rightarrow> outcome" where
  "submit_bid g_user db gw meth form_bid_amount ident new_id =
     supplier_only g_user db (submit_bid_view db gw meth form_bid_amount ident new_id)"

section \<open>Reachable states of the lifecycle\<close>

text \<open>
  Modelled from the spec: the identifier of an inserted row is assigned by the gateway
  and is unique in its table (the schema is not among the sources). An insert therefore
  takes any identifier that no row of the table carries. The lifecycle starts with no
  request and no bid; each step is one call of one route, by any caller, with any input
  and with or without a gateway fault.
\<close>

definition empty_state :: "database \<Rightarrow> bool" where
  "empty_state db \<longleftrightarrow> request_tbl db = [] \<and> bid_tbl db = []"

inductive reachable :: "database \<Rightarrow> bool" where
  r_init: "empty_state db \<Longrightarrow> reachable db"
| r_create: "reachable db \<Longrightarrow> new_id \<notin> r_id ` set (request_tbl db) \<Longrightarrow>
             reachable (db_of (create_request g_user db gw meth form new_id))"
| r_update: "reachable db \<Longrightarrow> reachable (db_of (update_request g_user db gw meth form ident))"
| r_cancel: "reachable db \<Longrightarrow> reachable (db_of (remove_request g_user db gw ident))"
| r_submit: "reachable db \<Longrightarrow> new_id \<notin> b_id ` set (bid_tbl db) \<Longrightarrow>
             reachable (db_of (submit_bid g_user db gw meth amount ident new_id))"
| r_accept: "reachable db \<Longrightarrow> reachable (db_of (accept_bid g_user db gw bid_id))"
| r_reject: "reachable db \<Longrightarrow> reachable (db_of (reject_bid g_user db gw bid_id))"

text \<open>The bids of a request, and how many of them are accepted.\<close>

definition bids_on :: "database \<Rightarrow> int \<Rightarrow> bid list" where
  "bids_on db request_id = filter (\<lambda>b. b_request_id b = request_id) (bid_tbl db)"

definition accepted_on :: "database \<Rightarrow> int \<Rightarrow> nat" where
  "accepted_on db request_id =
     length (filter (\<lambda>b. bid_status b = ''Accepted'') (bids_on db request_id))"

section \<open>Notions of the specification\<close>

text \<open>
  The spec speaks of the bids a company holds on a request. This definition follows the
  spec's words, to be compared with the joins of the dashboard queries: the bids of the
  request whose creator is a user of the company.
\<close>

definition spec_bids_from :: "database \<Rightarrow> string \<Rightarrow> int \<Rightarrow> bid list" where
  "spec_bids_from db company request_id =
     filter (\<lambda>b. b_request_id b = request_id
                 \<and> (\<exists>u\<in>set (user_tbl db). u_id u = b_created_by b \<and> u_company u = company))
       (bid_tbl db)"


text \<open>
  The invariant of the lifecycle, in terms of the bid table: bid ids are unique and no
  request id has two Accepted bids; a Complete request has exactly one Accepted bid and
  that bid is its only bid that is not Rejected.
\<close>

definition accepted_rows :: "int \<Rightarrow> bid list \<Rightarrow> bid list" where
  "accepted_rows rid bs = filter (\<lambda>b. b_request_id b = rid \<and> bid_status b = ''Accepted'') bs"

definition active_rows :: "int \<Rightarrow> bid list \<Rightarrow> bid list" where
  "active_rows rid bs = filter (\<lambda>b. bid_status b \<noteq> ''Rejected'' \<and> b_request_id b = rid) bs"

definition bids_ok :: "bid list \<Rightarrow> bool" where
  "bids_ok bs \<longleftrightarrow> distinct (map b_id bs) \<and> (\<forall>rid. length (accepted_rows rid bs) \<le> 1)"

definition settled :: "bid list \<Rightarrow> int \<Rightarrow> bool" where
  "settled bs rid \<longleftrightarrow> length (accepted_rows rid bs) = 1 \<and> length (active_rows rid bs) = 1"

definition lifecycle_inv :: "database \<Rightarrow> bool" where
  "lifecycle_inv db \<longleftrightarrow>
     bids_ok (bid_tbl db) \<and>
     (\<forall>r\<in>set (request_tbl db). request_status r = ''Complete'' \<longrightarrow> settled (bid_tbl db) (r_id r))"


section \<open>Example states\<close>

text \<open>
  Two customer companies and two supplier companies, one request of the first customer
  company, and up to two bids on it, one from each supplier company.
\<close>

definition customer1 :: user where
  "customer1 = \<lparr>u_id = 1, u_company = ''company1'', user_type = ''Customer''\<rparr>"

definition customer3 :: user where
  "customer3 = \<lparr>u_id = 3, u_company = ''company2'', user_type = ''Customer''\<rparr>"

definition supplier1 :: user where
  "supplier1 = \<lparr>u_id = 5, u_company = ''company3'', user_type = ''Supplier''\<rparr>"

definition supplier3 :: user where
  "supplier3 = \<lparr>u_id = 7, u_company = ''company4'', user_type = ''Supplier''\<rparr>"

definition demo_request :: "string \<Rightarrow> request" where
  "demo_request st =
     \<lparr>r_id = 1, r_created_by = 1, collection_date = 20, delivery_date = 25,
      collection_address = ''Leeds'', delivery_address = ''York'', pallets = ''2'',
      weight = Some 100, r_company = ''company1'', request_status = st\<rparr>"

definition demo_bid :: "int \<Rightarrow> int \<Rightarrow> string \<Rightarrow> bid" where
  "demo_bid ident supplier st =
     \<lparr>b_id = ident, b_request_id = 1, b_created_by = supplier, bid_amount = ''100'',
      bid_status = st\<rparr>"

definition no_request_db :: database where
  "no_request_db =
     \<lparr>user_tbl = [customer1, customer3, supplier1, supplier3], request_tbl = [], bid_tbl = []\<rparr>"

definition no_bid_db :: "string \<Rightarrow> database" where
  "no_bid_db st =
     \<lparr>user_tbl = [customer1, customer3, supplier1, supplier3],
      request_tbl = [demo_request st], bid_tbl = []\<rparr>"

definition one_bid_db :: "string \<Rightarrow> string \<Rightarrow> database" where
  "one_bid_db st s1 =
     \<lparr>user_tbl = [customer1, customer3, supplier1, supplier3],
      request_tbl = [demo_request st], bid_tbl = [demo_bid 1 5 s1]\<rparr>"

definition two_bids_db :: "string \<Rightarrow> string \<Rightarrow> string \<Rightarrow> database" where
  "two_bids_db st s1 s2 =
     \<lparr>user_tbl = [customer1, customer3, supplier1, supplier3],
      request_tbl = [demo_request st], bid_tbl = [demo_bid 1 5 s1, demo_bid 2 7 s2]\<rparr>"

definition demo_form :: "int \<Rightarrow> int \<Rightarrow> request_form" where
  "demo_form cd dd =
     \<lparr>f_collection_address = ''Leeds'', f_delivery_address = ''York'', f_pallets = ''2'',
      f_weight = Some 100, f_collection_date = Some cd, f_delivery_date = Some dd\<rparr>"

section \<open>Properties\<close>

subsection \<open>Evaluation and table lemmas\<close>

lemmas demo_defs = customer1_def customer3_def supplier1_def supplier3_def demo_request_def
  demo_bid_def no_request_db_def no_bid_db_def one_bid_db_def two_bids_db_def demo_form_def

lemmas route_defs = customer_only_def supplier_only_def reject_bid_def reject_bid_view_def
  accept_bid_def accept_bid_view_def remove_request_def remove_request_view_def
  select_bid_request_id_def select_bid_status_def select_request_status_def
  number_of_bids_def counted_bids_def sql_update_def sql_delete_def sql_insert_def fetchone_def

lemmas more_route_defs = create_request_def create_request_view_def submit_bid_def submit_bid_view_def
  update_request_def update_request_view_def default_request_status_def default_bid_status_def
  customer_get_request_def

lemmas dashboard_defs = supplier_requests_view_def live_requests_not_bid_def requests_bid_def
  requests_bid_won_def request_bid_user_def company_bids_def left_join_def spec_bids_from_def

lemma fetchone_simps: "fetchone [] = None" "fetchone (x # xs) = Some x"
  by (simp_all add: fetchone_def)

lemma select_after_update_same:
  assumes "\<And>x. key (g x) = key x"
  shows "fetchone (map col (filter (\<lambda>x. key x = k) (sql_update (\<lambda>x. key x = k) g xs)))
         = fetchone (map (\<lambda>x. col (g x)) (filter (\<lambda>x. key x = k) xs))"
  using assms by (induction xs) (simp_all add: sql_update_def fetchone_simps)


lemma fetchone_const_map:
  "fetchone (map (\<lambda>x. s) ys) = map_option (\<lambda>_. s) (fetchone (map col ys))"
  by (cases ys) (simp_all add: fetchone_simps)

lemma request_status_after_update:
  "fetchone (map request_status (filter (\<lambda>r. r_id r = k)
      (sql_update (\<lambda>r. r_id r = k) (\<lambda>r. r\<lparr>request_status := s\<rparr>) rs)))
   = map_option (\<lambda>_. s) (fetchone (map request_status (filter (\<lambda>r. r_id r = k) rs)))"
  by (simp add: select_after_update_same fetchone_const_map [where col = request_status])


lemma select_bid_both:
  "select_bid_request_id db i = Some rid \<Longrightarrow> \<exists>s. select_bid_status db i = Some s"
  by (cases "filter (\<lambda>b. b_id b = i) (bid_tbl db)")
     (simp_all add: select_bid_request_id_def select_bid_status_def fetchone_simps)

lemma customer_only_customer:
  "user_type u = ''Customer'' \<Longrightarrow> customer_only (Some u) db f = f u"
  by (simp add: customer_only_def)

lemma first_row_in_table:
  assumes "fetchone (map col (filter P xs)) = Some v"
  shows "\<exists>x\<in>set xs. P x \<and> col x = v"
proof (cases "filter P xs")
  case Nil
  with assms show ?thesis by (simp add: fetchone_simps)
next
  case (Cons y ys)
  with assms have "col y = v" by (simp add: fetchone_simps)
  moreover have "y \<in> set (filter P xs)" using Cons by simp
  ultimately show ?thesis by auto
qed


lemma primary_key_row:
  "distinct (map key xs) \<Longrightarrow> fetchone (map col (filter (\<lambda>x. key x = k) xs)) = Some v \<Longrightarrow>
   x \<in> set xs \<Longrightarrow> key x = k \<Longrightarrow> col x = v"
proof (induction xs)
  case Nil
  then show ?case by simp
next
  case (Cons y ys)
  show ?case
  proof (cases "key y = k")
    case True
    with Cons.prems(2) have "col y = v" by (simp add: fetchone_simps)
    moreover have "x = y"
    proof (rule ccontr)
      assume "x \<noteq> y"
      with Cons.prems(3) have "x \<in> set ys" by simp
      with Cons.prems(4) True have "key y \<in> key ` set ys" by force
      with Cons.prems(1) show False by simp
    qed
    ultimately show ?thesis by simp
  next
    case False
    with Cons show ?thesis by (auto simp: fetchone_simps)
  qed
qed

lemma sql_update_unchanged:
  "(\<And>x. x \<in> set xs \<Longrightarrow> c x \<Longrightarrow> g x = x) \<Longrightarrow> sql_update c g xs = xs"
  by (induction xs) (simp_all add: sql_update_def)





text \<open>
  Claim C10. Let a request have exactly one bid that is not Rejected, and let a customer
  call \<open>reject_bid\<close> on a bid of that request that is Rejected already. The request is
  set to "Awaiting bids" although no bid changes: the count taken before the update is
  1, the bid table is the same afterwards, and the one active bid is still counted.
\<close>

theorem reject_rejected_bid_reverts:
  assumes caller: "user_type u = ''Customer''"
    and pk: "distinct (map b_id (bid_tbl db))"
    and bid: "select_bid_request_id db bid_id = Some rid"
    and rejected: "select_bid_status db bid_id = Some ''Rejected''"
    and req: "select_request_status db rid = Some st"
    and one: "number_of_bids db rid = 1"
  shows "select_request_status (db_of (reject_bid (Some u) db None bid_id)) rid = Some ''Awaiting bids''
       \<and> bid_tbl (db_of (reject_bid (Some u) db None bid_id)) = bid_tbl db
       \<and> number_of_bids (db_of (reject_bid (Some u) db None bid_id)) rid = 1"
proof -
  have same: "sql_update (\<lambda>b. b_id b = bid_id) (\<lambda>b. b\<lparr>bid_status := ''Rejected''\<rparr>) (bid_tbl db) = bid_tbl db"
  proof (rule sql_update_unchanged)
    fix x assume "x \<in> set (bid_tbl db)" "b_id x = bid_id"
    with pk rejected have "bid_status x = ''Rejected''"
      unfolding select_bid_status_def by (rule primary_key_row)
    then show "x\<lparr>bid_status := ''Rejected''\<rparr> = x" by simp
  qed
  have out: "db_of (reject_bid (Some u) db None bid_id)
             = db\<lparr>request_tbl := sql_update (\<lambda>r. r_id r = rid)
                      (\<lambda>r. r\<lparr>request_status := ''Awaiting bids''\<rparr>) (request_tbl db),
                  bid_tbl := bid_tbl db\<rparr>"
    using caller bid one by (simp add: reject_bid_def customer_only_customer reject_bid_view_def same)
  show ?thesis
    unfolding out using req one
    by (simp add: select_request_status_def request_status_after_update
        number_of_bids_def counted_bids_def)
qed


theorem reject_rejected_bid_reverts_witness:
  "select_bid_status (two_bids_db ''Bid(s) received'' ''Pending'' ''Rejected'') 2 = Some ''Rejected''
   \<and> number_of_bids (two_bids_db ''Bid(s) received'' ''Pending'' ''Rejected'') 1 = 1
   \<and> select_request_status
        (db_of (reject_bid (Some customer1) (two_bids_db ''Bid(s) received'' ''Pending'' ''Rejected'') None 2)) 1
       = Some ''Awaiting bids''
   \<and> select_bid_status
        (db_of (reject_bid (Some customer1) (two_bids_db ''Bid(s) received'' ''Pending'' ''Rejected'') None 2)) 1
       = Some ''Pending''"
proof -
  let ?db = "two_bids_db ''Bid(s) received'' ''Pending'' ''Rejected''"
  have c: "user_type customer1 = ''Customer''" by (simp add: customer1_def)
  have pk: "distinct (map b_id (bid_tbl ?db))" by (simp add: demo_defs)
  have b: "select_bid_request_id ?db 2 = Some 1" by (simp add: demo_defs route_defs)
  have rj: "select_bid_status ?db 2 = Some ''Rejected''" by (simp add: demo_defs route_defs)
  have r: "select_request_status ?db 1 = Some ''Bid(s) received''" by (simp add: demo_defs route_defs)
  have n: "number_of_bids ?db 1 = 1" by (simp add: demo_defs route_defs)
  have p: "select_bid_status ?db 1 = Some ''Pending''" by (simp add: demo_defs route_defs)
  show ?thesis
    using reject_rejected_bid_reverts [OF c pk b rj r n] rj n p
    by (simp add: select_bid_status_def)
qed

lemma sql_update_twice:
  "sql_update c2 g2 (sql_update c1 g1 xs)
   = map (\<lambda>x. if c1 x then (if c2 (g1 x) then g2 (g1 x) else g1 x)
                else if c2 x then g2 x else x) xs"
  by (simp add: sql_update_def)

lemma accepted_first_row:
  assumes "\<And>b. b_id (g b) = b_id b"
  shows "fetchone (map bid_status (filter (\<lambda>b. b_id b = k)
           (map (\<lambda>b. if b_id b = k then b\<lparr>bid_status := s\<rparr> else g b) bs)))
         = map_option (\<lambda>_. s) (fetchone (map bid_status (filter (\<lambda>b. b_id b = k) bs)))"
  using assms by (induction bs) (simp_all add: fetchone_simps)

text \<open>
  Claim C2. Let a customer call \<open>accept_bid\<close> on a bid that resolves to an existing
  request. Without a gateway fault the committed state differs from the old one in
  exactly this: every request row with that id has status Complete, the bid has status
  Accepted, every other bid on the same request has status Rejected; all other rows and
  columns, and the number of rows, are as before. With a gateway fault nothing is
  committed.
\<close>

theorem accept_bid_mutations:
  assumes caller: "user_type u = ''Customer''"
    and bid: "select_bid_request_id db bid_id = Some rid"
    and req: "select_request_status db rid = Some st"
  shows "request_tbl (db_of (accept_bid (Some u) db None bid_id))
           = map (\<lambda>r. if r_id r = rid then r\<lparr>request_status := ''Complete''\<rparr> else r) (request_tbl db)
       \<and> bid_tbl (db_of (accept_bid (Some u) db None bid_id))
           = map (\<lambda>b. if b_id b = bid_id then b\<lparr>bid_status := ''Accepted''\<rparr>
                       else if b_request_id b = rid then b\<lparr>bid_status := ''Rejected''\<rparr> else b)
               (bid_tbl db)
       \<and> user_tbl (db_of (accept_bid (Some u) db None bid_id)) = user_tbl db
       \<and> select_request_status (db_of (accept_bid (Some u) db None bid_id)) rid = Some ''Complete''
       \<and> select_bid_status (db_of (accept_bid (Some u) db None bid_id)) bid_id = Some ''Accepted''
       \<and> (\<forall>b\<in>set (bid_tbl (db_of (accept_bid (Some u) db None bid_id))).
             b_request_id b = rid \<and> b_id b \<noteq> bid_id \<longrightarrow> bid_status b = ''Rejected'')
       \<and> db_of (accept_bid (Some u) db (Some e) bid_id) = db"
proof -
  obtain s where s: "select_bid_status db bid_id = Some s"
    using select_bid_both [OF bid] by blast
  let ?reqs = "sql_update (\<lambda>r. r_id r = rid) (\<lambda>r. r\<lparr>request_status := ''Complete''\<rparr>) (request_tbl db)"
  let ?acc = "sql_update (\<lambda>b. b_id b = bid_id) (\<lambda>b. b\<lparr>bid_status := ''Accepted''\<rparr>) (bid_tbl db)"
  let ?bids = "sql_update (\<lambda>b. b_request_id b = rid \<and> b_id b \<noteq> bid_id)
                 (\<lambda>b. b\<lparr>bid_status := ''Rejected''\<rparr>) ?acc"
  have out: "db_of (accept_bid (Some u) db None bid_id) = db\<lparr>request_tbl := ?reqs, bid_tbl := ?bids\<rparr>"
    using caller bid by (simp add: accept_bid_def customer_only_customer accept_bid_view_def)
  have fault: "db_of (accept_bid (Some u) db (Some e) bid_id) = db"
    using caller bid by (simp add: accept_bid_def customer_only_customer accept_bid_view_def)
  have reqs: "?reqs = map (\<lambda>r. if r_id r = rid then r\<lparr>request_status := ''Complete''\<rparr> else r) (request_tbl db)"
    by (simp add: sql_update_def)
  have bids: "?bids = map (\<lambda>b. if b_id b = bid_id then b\<lparr>bid_status := ''Accepted''\<rparr>
                       else if b_request_id b = rid then b\<lparr>bid_status := ''Rejected''\<rparr> else b)
               (bid_tbl db)"
    by (simp add: sql_update_twice)
  have rs: "select_request_status (db\<lparr>request_tbl := ?reqs, bid_tbl := ?bids\<rparr>) rid = Some ''Complete''"
    using req by (simp add: select_request_status_def request_status_after_update)
  have bs: "select_bid_status (db\<lparr>request_tbl := ?reqs, bid_tbl := ?bids\<rparr>) bid_id = Some ''Accepted''"
    using s by (simp add: select_bid_status_def bids accepted_first_row [where g = "\<lambda>b. if b_request_id b = rid then b\<lparr>bid_status := ''Rejected''\<rparr> else b"])
  have others: "\<forall>b\<in>set ?bids. b_request_id b = rid \<and> b_id b \<noteq> bid_id \<longrightarrow> bid_status b = ''Rejected''"
  proof
    fix b assume "b \<in> set ?bids"
    then obtain b0 where "b = (if b_id b0 = bid_id then b0\<lparr>bid_status := ''Accepted''\<rparr>
                       else if b_request_id b0 = rid then b0\<lparr>bid_status := ''Rejected''\<rparr> else b0)"
      unfolding bids set_map by (rule imageE)
    then show "b_request_id b = rid \<and> b_id b \<noteq> bid_id \<longrightarrow> bid_status b = ''Rejected''"
      by (simp split: if_splits)
  qed
  show ?thesis
    apply (intro conjI)
    subgoal unfolding out using reqs by simp
    subgoal unfolding out using bids by simp
    subgoal unfolding out by simp
    subgoal unfolding out using rs by simp
    subgoal unfolding out using bs by simp
    subgoal unfolding out using others by simp
    subgoal using fault by simp
    done
qed

theorem accept_bid_mutations_witness:
  "select_bid_request_id (two_bids_db ''Bid(s) received'' ''Pending'' ''Pending'') 1 = Some 1
   \<and> select_request_status (db_of (accept_bid (Some customer1) (two_bids_db ''Bid(s) received'' ''Pending'' ''Pending'') None 1)) 1
       = Some ''Complete''
   \<and> select_bid_status (db_of (accept_bid (Some customer1) (two_bids_db ''Bid(s) received'' ''Pending'' ''Pending'') None 1)) 1
       = Some ''Accepted''
   \<and> select_bid_status (db_of (accept_bid (Some customer1) (two_bids_db ''Bid(s) received'' ''Pending'' ''Pending'') None 1)) 2
       = Some ''Rejected''
   \<and> db_of (accept_bid (Some customer1) (two_bids_db ''Bid(s) received'' ''Pending'' ''Pending'') None 1)
       = two_bids_db ''Complete'' ''Accepted'' ''Rejected''"
proof -
  let ?db = "two_bids_db ''Bid(s) received'' ''Pending'' ''Pending''"
  have c: "user_type customer1 = ''Customer''" by (simp add: customer1_def)
  have b: "select_bid_request_id ?db 1 = Some 1" by (simp add: demo_defs route_defs)
  have r: "select_request_status ?db 1 = Some ''Bid(s) received''" by (simp add: demo_defs route_defs)
  have m: "db_of (accept_bid (Some customer1) ?db None 1) = two_bids_db ''Complete'' ''Accepted'' ''Rejected''"
    using accept_bid_mutations [OF c b r, of undefined]
    by (simp add: demo_defs)
  have s2: "select_bid_status (two_bids_db ''Complete'' ''Accepted'' ''Rejected'') 2 = Some ''Rejected''"
    by (simp add: demo_defs route_defs)
  show ?thesis
    using accept_bid_mutations [OF c b r, of undefined] b m s2 by simp
qed




text \<open>
  Claim C6, as stated, fails: a customer of company2 accepts, and likewise rejects, a bid
  on a request that company1 owns, and the mutation is committed.
\<close>

theorem other_company_accepts_and_rejects:
  "u_company customer3 \<noteq> r_company (demo_request ''Bid(s) received'')
   \<and> request_tbl (two_bids_db ''Bid(s) received'' ''Pending'' ''Pending'') = [demo_request ''Bid(s) received'']
   \<and> accept_bid (Some customer3) (two_bids_db ''Bid(s) received'' ''Pending'' ''Pending'') None 1
       = \<lparr>response = Redirect ''customer_routes.view_request'' (Some 1), flashed = [],
          db_of = two_bids_db ''Complete'' ''Accepted'' ''Rejected''\<rparr>
   \<and> reject_bid (Some customer3) (two_bids_db ''Bid(s) received'' ''Pending'' ''Pending'') None 1
       = \<lparr>response = Redirect ''customer_routes.view_request'' (Some 1), flashed = [],
          db_of = two_bids_db ''Bid(s) received'' ''Rejected'' ''Pending''\<rparr>"
  by (simp add: demo_defs route_defs)

text \<open>
  Claim C6, amended. \<open>accept_bid\<close> and \<open>reject_bid\<close> are refused, with a redirect to the
  login page and no mutation, for every logged-in caller whose user type is not
  Customer. The company of the caller is not compared with the company of the parent
  request: two customers, of whatever companies, get the same outcome.
\<close>

theorem bid_routes_gate_on_role_only:
  "(user_type u \<noteq> ''Customer'' \<longrightarrow>
      accept_bid (Some u) db gw bid_id
        = \<lparr>response = Redirect ''auth.login'' None, flashed = [], db_of = db\<rparr> \<and>
      reject_bid (Some u) db gw bid_id
        = \<lparr>response = Redirect ''auth.login'' None, flashed = [], db_of = db\<rparr>)
   \<and> (user_type u = ''Customer'' \<and> user_type u' = ''Customer'' \<longrightarrow>
      accept_bid (Some u) db gw bid_id = accept_bid (Some u') db gw bid_id \<and>
      reject_bid (Some u) db gw bid_id = reject_bid (Some u') db gw bid_id)"
  by (simp add: accept_bid_def reject_bid_def customer_only_def accept_bid_view_def
      reject_bid_view_def)

theorem bid_routes_gate_on_role_only_witness:
  "user_type supplier1 \<noteq> ''Customer''
   \<and> db_of (accept_bid (Some supplier1) (two_bids_db ''Bid(s) received'' ''Pending'' ''Pending'') None 1)
       = two_bids_db ''Bid(s) received'' ''Pending'' ''Pending''
   \<and> db_of (reject_bid (Some supplier1) (two_bids_db ''Bid(s) received'' ''Pending'' ''Pending'') None 1)
       = two_bids_db ''Bid(s) received'' ''Pending'' ''Pending''
   \<and> user_type customer1 = ''Customer'' \<and> user_type customer3 = ''Customer''
   \<and> accept_bid (Some customer1) (two_bids_db ''Bid(s) received'' ''Pending'' ''Pending'') None 1
       = accept_bid (Some customer3) (two_bids_db ''Bid(s) received'' ''Pending'' ''Pending'') None 1"
proof -
  have s: "user_type supplier1 \<noteq> ''Customer''" by (simp add: supplier1_def)
  have c: "user_type customer1 = ''Customer''" "user_type customer3 = ''Customer''"
    by (simp_all add: customer1_def customer3_def)
  show ?thesis
    using bid_routes_gate_on_role_only
            [where u = supplier1 and db = "two_bids_db ''Bid(s) received'' ''Pending'' ''Pending''"
               and gw = None and bid_id = 1 and u' = supplier1]
          bid_routes_gate_on_role_only
            [where u = customer1 and u' = customer3 and gw = None and bid_id = 1
               and db = "two_bids_db ''Bid(s) received'' ''Pending'' ''Pending''"]
          s c
    by simp
qed

text \<open>
  Claim C7, evaluated where it fails. For a bid id that no bid carries, \<open>accept_bid\<close>
  returns no response and flashes nothing, and \<open>reject_bid\<close> lets a \<open>TypeError\<close>
  escape and flashes nothing. Neither changes the database.
\<close>

theorem missing_bid_outcomes:
  "select_bid_request_id (one_bid_db ''Bid(s) received'' ''Pending'') 99 = None
   \<and> accept_bid (Some customer1) (one_bid_db ''Bid(s) received'' ''Pending'') None 99
       = \<lparr>response = ReturnedNone, flashed = [], db_of = one_bid_db ''Bid(s) received'' ''Pending''\<rparr>
   \<and> reject_bid (Some customer1) (one_bid_db ''Bid(s) received'' ''Pending'') None 99
       = \<lparr>response = Raised TypeError, flashed = [], db_of = one_bid_db ''Bid(s) received'' ''Pending''\<rparr>"
  by (simp add: demo_defs route_defs)

text \<open>
  Claim C8, evaluated where it fails. The form declares \<open>validate_collectionBy\<close> and
  \<open>validate_deliveryBy\<close>, and both reject the input below (today is day 10, collection
  on day 5, delivery on day 3). \<open>create_request\<close> never runs the validators of its form:
  it inserts the request.
\<close>

theorem create_request_skips_validators:
  "validate_collectionBy 10 5 = ValidationError ''The must be in the future''
   \<and> validate_deliveryBy 5 3
       = ValidationError ''The delivery date must not be prior to the collection date''
   \<and> create_request (Some customer1) no_request_db None POST (demo_form 5 3) 1
       = \<lparr>response = Redirect ''customer_routes.customer_requests'' None, flashed = [],
          db_of = no_request_db
            \<lparr>request_tbl :=
               [\<lparr>r_id = 1, r_created_by = 1, collection_date = 5, delivery_date = 3,
                 collection_address = ''Leeds'', delivery_address = ''York'', pallets = ''2'',
                 weight = Some 100, r_company = ''company1'',
                 request_status = ''Awaiting bids''\<rparr>]\<rparr>\<rparr>"
  by (simp add: demo_defs customer_only_def create_request_def create_request_view_def
      validate_collectionBy_def validate_deliveryBy_def sql_insert_def default_request_status_def)

subsection \<open>The dashboard queries\<close>

lemma join_rows_set:
  "set (case ms of [] \<Rightarrow> [(a, None)] | x # xs \<Rightarrow> map (\<lambda>m. (a, Some m)) (x # xs))
   = (if ms = [] then {(a, None)} else (\<lambda>m. (a, Some m)) ` set ms)"
  by (cases ms) simp_all

lemma set_left_join:
  "set (left_join ls rs c)
   = {(l, Some m) | l m. l \<in> set ls \<and> m \<in> set rs \<and> c l m}
     \<union> {(l, None) | l. l \<in> set ls \<and> (\<forall>m\<in>set rs. \<not> c l m)}"
proof (induction ls)
  case Nil
  then show ?case by (simp add: left_join_def)
next
  case (Cons a ls)
  have step: "set (left_join (a # ls) rs c)
              = (if filter (c a) rs = [] then {(a, None)}
                 else (\<lambda>m. (a, Some m)) ` set (filter (c a) rs))
                \<union> set (left_join ls rs c)"
    unfolding left_join_def by (simp add: join_rows_set)
  show ?case
    unfolding step Cons.IH by (auto simp: filter_empty_conv)
qed

lemma left_join_Some_iff:
  "(l, Some m) \<in> set (left_join ls rs c) \<longleftrightarrow> l \<in> set ls \<and> m \<in> set rs \<and> c l m"
  by (simp add: set_left_join)

lemma left_join_None_iff:
  "(l, None) \<in> set (left_join ls rs c) \<longleftrightarrow> l \<in> set ls \<and> (\<forall>m\<in>set rs. \<not> c l m)"
  by (simp add: set_left_join)


lemma company_bids_iff:
  "(b, uo) \<in> set (company_bids db C) \<longleftrightarrow>
     (\<exists>u. uo = Some u \<and> b \<in> set (bid_tbl db) \<and> u \<in> set (user_tbl db)
          \<and> u_id u = b_created_by b \<and> u_company u = C)"
  by (cases uo) (auto simp: company_bids_def left_join_Some_iff left_join_None_iff)

lemma spec_bids_from_empty_iff:
  "spec_bids_from db C rid = [] \<longleftrightarrow>
     (\<forall>b u. (b, u) \<in> set (company_bids db C) \<longrightarrow> b_request_id b \<noteq> rid)"
  by (auto simp: spec_bids_from_def filter_empty_conv company_bids_iff)

lemma live_requests_not_bid_iff:
  "r \<in> set (live_requests_not_bid db C) \<longleftrightarrow>
     r \<in> set (request_tbl db) \<and> request_status r \<noteq> ''Complete'' \<and> spec_bids_from db C (r_id r) = []"
proof -
  let ?J = "left_join (request_tbl db) (company_bids db C) (\<lambda>r (b, u). b_request_id b = r_id r)"
  let ?co = "\<lambda>cb. case cb of None \<Rightarrow> None | Some (b, u) \<Rightarrow> map_option u_company u"
  have mem: "r \<in> set (live_requests_not_bid db C) \<longleftrightarrow>
             (\<exists>cb. (r, cb) \<in> set ?J \<and> ?co cb \<noteq> Some C \<and> request_status r \<noteq> ''Complete'')"
    by (force simp: live_requests_not_bid_def)
  have some: "(r, Some bu) \<in> set ?J \<Longrightarrow> ?co (Some bu) = Some C" for bu
    by (cases bu) (auto simp: left_join_Some_iff company_bids_iff)
  have none: "(r, None) \<in> set ?J \<longleftrightarrow> r \<in> set (request_tbl db) \<and> spec_bids_from db C (r_id r) = []"
    by (auto simp: left_join_None_iff spec_bids_from_empty_iff)
  show ?thesis
  proof
    assume "r \<in> set (live_requests_not_bid db C)"
    then obtain cb where cb: "(r, cb) \<in> set ?J" "?co cb \<noteq> Some C" "request_status r \<noteq> ''Complete''"
      using mem by blast
    have "cb = None"
    proof (cases cb)
      case None then show ?thesis .
    next
      case (Some bu)
      with cb(1) some have "?co cb = Some C" by blast
      with cb(2) show ?thesis by simp
    qed
    with cb none show "r \<in> set (request_tbl db) \<and> request_status r \<noteq> ''Complete'' \<and> spec_bids_from db C (r_id r) = []"
      by simp
  next
    assume a: "r \<in> set (request_tbl db) \<and> request_status r \<noteq> ''Complete'' \<and> spec_bids_from db C (r_id r) = []"
    then have "(r, None) \<in> set ?J" using none by simp
    moreover have "?co None \<noteq> Some C" by simp
    ultimately show "r \<in> set (live_requests_not_bid db C)" using a mem by blast
  qed
qed

lemma request_bid_user_iff:
  "((r, bo), uo) \<in> set (request_bid_user db) \<longleftrightarrow>
     r \<in> set (request_tbl db) \<and>
     (case bo of
        None \<Rightarrow> uo = None \<and> (\<forall>b\<in>set (bid_tbl db). r_id r \<noteq> b_request_id b)
      | Some b \<Rightarrow> b \<in> set (bid_tbl db) \<and> r_id r = b_request_id b \<and>
          (case uo of
             None \<Rightarrow> (\<forall>u\<in>set (user_tbl db). u_id u \<noteq> b_created_by b)
           | Some u \<Rightarrow> u \<in> set (user_tbl db) \<and> u_id u = b_created_by b))"
  by (cases bo; cases uo)
     (auto simp: request_bid_user_def left_join_Some_iff left_join_None_iff)

lemma requests_bid_iff:
  "r \<in> fst ` set (requests_bid db C) \<longleftrightarrow>
     r \<in> set (request_tbl db) \<and> request_status r \<noteq> ''Complete'' \<and> spec_bids_from db C (r_id r) \<noteq> []"
proof
  assume "r \<in> fst ` set (requests_bid db C)"
  then obtain bo uo where row: "((r, bo), uo) \<in> set (request_bid_user db)"
      and w: "map_option b_id bo \<noteq> None" "map_option u_company uo = Some C"
             "request_status r \<noteq> ''Complete''"
    by (force simp: requests_bid_def)
  from w obtain b u where bu: "bo = Some b" "uo = Some u" "u_company u = C" by auto
  with row have "b \<in> set (spec_bids_from db C (r_id r))" "r \<in> set (request_tbl db)"
    by (auto simp: request_bid_user_iff spec_bids_from_def)
  with w(3) show "r \<in> set (request_tbl db) \<and> request_status r \<noteq> ''Complete'' \<and> spec_bids_from db C (r_id r) \<noteq> []"
    by auto
next
  assume a: "r \<in> set (request_tbl db) \<and> request_status r \<noteq> ''Complete'' \<and> spec_bids_from db C (r_id r) \<noteq> []"
  then obtain b where "b \<in> set (spec_bids_from db C (r_id r))" by (cases "spec_bids_from db C (r_id r)") auto
  then obtain u where bu: "b \<in> set (bid_tbl db)" "b_request_id b = r_id r" "u \<in> set (user_tbl db)"
      "u_id u = b_created_by b" "u_company u = C"
    by (auto simp: spec_bids_from_def)
  with a have "((r, Some b), Some u) \<in> set (request_bid_user db)"
    by (simp add: request_bid_user_iff)
  with a bu have "(r, Some (b_id b)) \<in> set (requests_bid db C)"
    by (force simp: requests_bid_def)
  then show "r \<in> fst ` set (requests_bid db C)" by force
qed

lemma requests_bid_won_iff:
  "r \<in> fst ` set (requests_bid_won db C) \<longleftrightarrow>
     r \<in> set (request_tbl db) \<and> request_status r = ''Complete'' \<and>
     (\<exists>b\<in>set (spec_bids_from db C (r_id r)). bid_status b \<noteq> ''Rejected'')"
proof
  assume "r \<in> fst ` set (requests_bid_won db C)"
  then obtain bo uo where row: "((r, bo), uo) \<in> set (request_bid_user db)"
      and w: "map_option bid_status bo \<noteq> Some ''Rejected''" "map_option u_company uo = Some C"
             "request_status r = ''Complete''"
    by (force simp: requests_bid_won_def)
  from w obtain u where u: "uo = Some u" "u_company u = C" by auto
  with row obtain b where b: "bo = Some b" by (cases bo) (auto simp: request_bid_user_iff)
  with row u w(1) have "b \<in> set (spec_bids_from db C (r_id r))" "bid_status b \<noteq> ''Rejected''"
      "r \<in> set (request_tbl db)"
    by (auto simp: request_bid_user_iff spec_bids_from_def)
  with w(3) show "r \<in> set (request_tbl db) \<and> request_status r = ''Complete'' \<and>
     (\<exists>b\<in>set (spec_bids_from db C (r_id r)). bid_status b \<noteq> ''Rejected'')"
    by auto
next
  assume a: "r \<in> set (request_tbl db) \<and> request_status r = ''Complete'' \<and>
     (\<exists>b\<in>set (spec_bids_from db C (r_id r)). bid_status b \<noteq> ''Rejected'')"
  then obtain b where "b \<in> set (spec_bids_from db C (r_id r))" "bid_status b \<noteq> ''Rejected''" by auto
  then obtain u where bu: "b \<in> set (bid_tbl db)" "b_request_id b = r_id r" "u \<in> set (user_tbl db)"
      "u_id u = b_created_by b" "u_company u = C" "bid_status b \<noteq> ''Rejected''"
    by (auto simp: spec_bids_from_def)
  with a have "((r, Some b), Some u) \<in> set (request_bid_user db)"
    by (simp add: request_bid_user_iff)
  with a bu have "(r, Some (b_id b)) \<in> set (requests_bid_won db C)"
    by (force simp: requests_bid_won_def)
  then show "r \<in> fst ` set (requests_bid_won db C)" by force
qed

subsection \<open>The lifecycle invariant\<close>

lemma count_map_cong:
  "(\<And>x. x \<in> set xs \<Longrightarrow> P (f x) = Q x) \<Longrightarrow> length (filter P (map f xs)) = length (filter Q xs)"
  by (induction xs) simp_all

lemma count_map_le:
  "(\<And>x. x \<in> set xs \<Longrightarrow> P (f x) \<Longrightarrow> Q x) \<Longrightarrow> length (filter P (map f xs)) \<le> length (filter Q xs)"
  by (induction xs) auto

lemma key_unique:
  "distinct (map key xs) \<Longrightarrow> x \<in> set xs \<Longrightarrow> y \<in> set xs \<Longrightarrow> key x = key y \<Longrightarrow> x = y"
  by (simp add: distinct_map inj_on_def)

lemma count_key:
  "distinct (map key xs) \<Longrightarrow> x \<in> set xs \<Longrightarrow> length (filter (\<lambda>y. key y = key x) xs) = 1"
proof (induction xs)
  case Nil
  then show ?case by simp
next
  case (Cons a xs)
  show ?case
  proof (cases "x = a")
    case True
    have "key a \<notin> key ` set xs" using Cons.prems(1) by simp
    then have "filter (\<lambda>y. key y = key a) xs = []"
      by (simp add: filter_empty_conv) (metis imageI)
    with True show ?thesis by simp
  next
    case False
    with Cons.prems have "x \<in> set xs" by simp
    with Cons.prems(1) have "key a \<noteq> key x" by force
    with Cons \<open>x \<in> set xs\<close> show ?thesis by simp
  qed
qed

lemma accepted_on_rows: "accepted_on db rid = length (accepted_rows rid (bid_tbl db))"
  by (simp add: accepted_on_def bids_on_def accepted_rows_def)

lemma number_of_bids_rows: "number_of_bids db rid = length (active_rows rid (bid_tbl db))"
  by (simp add: number_of_bids_def counted_bids_def active_rows_def)

lemma lifecycle_inv_bids_same:
  assumes inv: "lifecycle_inv db" and same: "bid_tbl db' = bid_tbl db"
    and reqs: "\<And>r. r \<in> set (request_tbl db') \<Longrightarrow> request_status r = ''Complete'' \<Longrightarrow>
           \<exists>r0\<in>set (request_tbl db). r_id r0 = r_id r \<and> request_status r0 = ''Complete''"
  shows "lifecycle_inv db'"
  unfolding lifecycle_inv_def same
proof (intro conjI ballI impI)
  show "bids_ok (bid_tbl db)" using inv by (simp add: lifecycle_inv_def)
next
  fix r assume "r \<in> set (request_tbl db')" "request_status r = ''Complete''"
  then obtain r0 where "r0 \<in> set (request_tbl db)" "r_id r0 = r_id r" "request_status r0 = ''Complete''"
    using reqs by blast
  with inv show "settled (bid_tbl db) (r_id r)" unfolding lifecycle_inv_def by metis
qed

lemma sql_update_member:
  "r \<in> set (sql_update c g rs) \<Longrightarrow> \<exists>r0\<in>set rs. r = (if c r0 then g r0 else r0)"
  by (auto simp: sql_update_def)

lemma inv_create:
  assumes "lifecycle_inv db" and "request_status new \<noteq> ''Complete''"
  shows "lifecycle_inv (db\<lparr>request_tbl := sql_insert new (request_tbl db)\<rparr>)"
  using assms(1)
proof (rule lifecycle_inv_bids_same)
  fix r assume "r \<in> set (request_tbl (db\<lparr>request_tbl := sql_insert new (request_tbl db)\<rparr>))"
    "request_status r = ''Complete''"
  with assms(2) show "\<exists>r0\<in>set (request_tbl db). r_id r0 = r_id r \<and> request_status r0 = ''Complete''"
    by (auto simp: sql_insert_def)
qed simp

lemma inv_update:
  assumes "lifecycle_inv db"
    and "\<And>r. request_status (g r) = request_status r \<and> r_id (g r) = r_id r"
  shows "lifecycle_inv (db\<lparr>request_tbl := sql_update c g (request_tbl db)\<rparr>)"
  using assms(1)
proof (rule lifecycle_inv_bids_same)
  fix r assume "r \<in> set (request_tbl (db\<lparr>request_tbl := sql_update c g (request_tbl db)\<rparr>))"
    and c: "request_status r = ''Complete''"
  then obtain r0 where "r0 \<in> set (request_tbl db)" "r = (if c r0 then g r0 else r0)"
    using sql_update_member [of r c g "request_tbl db"] by auto
  with c assms(2) show "\<exists>r0\<in>set (request_tbl db). r_id r0 = r_id r \<and> request_status r0 = ''Complete''"
    by (intro bexI [of _ r0]) (auto split: if_splits)
qed simp

lemma inv_delete:
  assumes "lifecycle_inv db"
  shows "lifecycle_inv (db\<lparr>request_tbl := sql_delete c (request_tbl db)\<rparr>)"
  using assms
proof (rule lifecycle_inv_bids_same)
  fix r assume "r \<in> set (request_tbl (db\<lparr>request_tbl := sql_delete c (request_tbl db)\<rparr>))"
    "request_status r = ''Complete''"
  then show "\<exists>r0\<in>set (request_tbl db). r_id r0 = r_id r \<and> request_status r0 = ''Complete''"
    by (auto simp: sql_delete_def)
qed simp


lemma inv_submit:
  assumes inv: "lifecycle_inv db"
    and fresh: "b_id new \<notin> b_id ` set (bid_tbl db)"
    and pending: "bid_status new \<noteq> ''Accepted''"
    and st: "st \<noteq> ''Complete''"
  shows "lifecycle_inv
           (db\<lparr>request_tbl := sql_update (\<lambda>r. r_id r = b_request_id new)
                                (\<lambda>r. r\<lparr>request_status := st\<rparr>) (request_tbl db),
               bid_tbl := sql_insert new (bid_tbl db)\<rparr>)"
proof -
  let ?bs = "bid_tbl db"
  have ok: "bids_ok ?bs" using inv by (simp add: lifecycle_inv_def)
  have acc: "accepted_rows rid (sql_insert new ?bs) = accepted_rows rid ?bs" for rid
    using pending by (simp add: accepted_rows_def sql_insert_def)
  have act: "rid \<noteq> b_request_id new \<Longrightarrow> active_rows rid (sql_insert new ?bs) = active_rows rid ?bs" for rid
    by (auto simp: active_rows_def sql_insert_def)
  have ok': "bids_ok (sql_insert new ?bs)"
    using ok fresh unfolding bids_ok_def acc by (simp add: sql_insert_def)
  have "settled (sql_insert new ?bs) (r_id r)"
    if r: "r \<in> set (sql_update (\<lambda>r. r_id r = b_request_id new)
                      (\<lambda>r. r\<lparr>request_status := st\<rparr>) (request_tbl db))"
      and c: "request_status r = ''Complete''" for r
  proof -
    obtain r0 where r0: "r0 \<in> set (request_tbl db)"
        "r = (if r_id r0 = b_request_id new then r0\<lparr>request_status := st\<rparr> else r0)"
      using sql_update_member [OF r] by blast
    with c st have ne: "r_id r0 \<noteq> b_request_id new" and eq: "r = r0" by (auto split: if_splits)
    with r0 c inv have "settled ?bs (r_id r)" by (simp add: lifecycle_inv_def)
    with ne eq show ?thesis by (simp add: settled_def acc act)
  qed
  with ok' show ?thesis by (simp add: lifecycle_inv_def)
qed

lemma bid_row_of_select:
  assumes "select_bid_request_id db bid_id = Some rid"
  obtains B where "B \<in> set (bid_tbl db)" "b_id B = bid_id" "b_request_id B = rid"
  using first_row_in_table [OF assms [unfolded select_bid_request_id_def]] by blast

lemma inv_accept:
  assumes inv: "lifecycle_inv db"
    and sel: "select_bid_request_id db bid_id = Some rid"
  shows "lifecycle_inv
           (db\<lparr>request_tbl := sql_update (\<lambda>r. r_id r = rid)
                                (\<lambda>r. r\<lparr>request_status := ''Complete''\<rparr>) (request_tbl db),
               bid_tbl := sql_update (\<lambda>b. b_request_id b = rid \<and> b_id b \<noteq> bid_id)
                            (\<lambda>b. b\<lparr>bid_status := ''Rejected''\<rparr>)
                            (sql_update (\<lambda>b. b_id b = bid_id) (\<lambda>b. b\<lparr>bid_status := ''Accepted''\<rparr>)
                               (bid_tbl db))\<rparr>)"
proof -
  let ?bs = "bid_tbl db"
  let ?f = "\<lambda>b. if b_id b = bid_id then b\<lparr>bid_status := ''Accepted''\<rparr>
                 else if b_request_id b = rid then b\<lparr>bid_status := ''Rejected''\<rparr> else b"
  have bids: "sql_update (\<lambda>b. b_request_id b = rid \<and> b_id b \<noteq> bid_id)
                (\<lambda>b. b\<lparr>bid_status := ''Rejected''\<rparr>)
                (sql_update (\<lambda>b. b_id b = bid_id) (\<lambda>b. b\<lparr>bid_status := ''Accepted''\<rparr>) ?bs)
              = map ?f ?bs"
    by (simp add: sql_update_twice)
  have ok: "bids_ok ?bs" using inv by (simp add: lifecycle_inv_def)
  then have pk: "distinct (map b_id ?bs)" by (simp add: bids_ok_def)
  obtain B where B: "B \<in> set ?bs" "b_id B = bid_id" "b_request_id B = rid"
    using sel by (rule bid_row_of_select)
  have target: "b_request_id b = rid" if "b \<in> set ?bs" "b_id b = bid_id" for b
    using key_unique [OF pk that(1) B(1)] that(2) B by auto
  have one: "length (filter (\<lambda>b. b_id b = bid_id) ?bs) = 1"
    using count_key [OF pk B(1)] B(2) by simp
  have acc_here: "length (accepted_rows rid (map ?f ?bs)) = 1"
  proof -
    have "length (accepted_rows rid (map ?f ?bs)) = length (filter (\<lambda>b. b_id b = bid_id) ?bs)"
      unfolding accepted_rows_def
    proof (rule count_map_cong)
      fix b assume "b \<in> set ?bs"
      then show "(b_request_id (?f b) = rid \<and> bid_status (?f b) = ''Accepted'') = (b_id b = bid_id)"
        using target [of b] by (cases "b_id b = bid_id") simp_all
    qed
    with one show ?thesis by simp
  qed
  have act_here: "length (active_rows rid (map ?f ?bs)) = 1"
  proof -
    have "length (active_rows rid (map ?f ?bs)) = length (filter (\<lambda>b. b_id b = bid_id) ?bs)"
      unfolding active_rows_def
    proof (rule count_map_cong)
      fix b assume "b \<in> set ?bs"
      then show "(bid_status (?f b) \<noteq> ''Rejected'' \<and> b_request_id (?f b) = rid) = (b_id b = bid_id)"
        using target [of b] by (cases "b_id b = bid_id") simp_all
    qed
    with one show ?thesis by simp
  qed
  have acc_other: "length (accepted_rows r' (map ?f ?bs)) = length (accepted_rows r' ?bs)"
    if "r' \<noteq> rid" for r'
    unfolding accepted_rows_def
  proof (rule count_map_cong)
    fix b assume "b \<in> set ?bs"
    then show "(b_request_id (?f b) = r' \<and> bid_status (?f b) = ''Accepted'')
               = (b_request_id b = r' \<and> bid_status b = ''Accepted'')"
      using target [of b] that by (cases "b_id b = bid_id") auto
  qed
  have act_other: "length (active_rows r' (map ?f ?bs)) = length (active_rows r' ?bs)"
    if "r' \<noteq> rid" for r'
    unfolding active_rows_def
  proof (rule count_map_cong)
    fix b assume "b \<in> set ?bs"
    then show "(bid_status (?f b) \<noteq> ''Rejected'' \<and> b_request_id (?f b) = r')
               = (bid_status b \<noteq> ''Rejected'' \<and> b_request_id b = r')"
      using target [of b] that by (cases "b_id b = bid_id") auto
  qed
  have ids: "map b_id (map ?f ?bs) = map b_id ?bs" by simp
  have ok': "bids_ok (map ?f ?bs)"
    unfolding bids_ok_def
  proof (intro conjI allI)
    show "distinct (map b_id (map ?f ?bs))" unfolding ids by (rule pk)
  next
    fix r' show "length (accepted_rows r' (map ?f ?bs)) \<le> 1"
    proof (cases "r' = rid")
      case True then show ?thesis using acc_here by simp
    next
      case False
      then show ?thesis using acc_other [OF False] ok by (simp add: bids_ok_def)
    qed
  qed
  have "settled (map ?f ?bs) (r_id r)"
    if r: "r \<in> set (sql_update (\<lambda>r. r_id r = rid)
                      (\<lambda>r. r\<lparr>request_status := ''Complete''\<rparr>) (request_tbl db))"
      and c: "request_status r = ''Complete''" for r
  proof (cases "r_id r = rid")
    case True
    then show ?thesis using acc_here act_here by (simp add: settled_def)
  next
    case False
    obtain r0 where r0: "r0 \<in> set (request_tbl db)"
        "r = (if r_id r0 = rid then r0\<lparr>request_status := ''Complete''\<rparr> else r0)"
      using sql_update_member [OF r] by blast
    with False have eq: "r = r0" by (auto split: if_splits)
    with r0 c inv have "settled ?bs (r_id r)" by (simp add: lifecycle_inv_def)
    with False show ?thesis by (simp add: settled_def acc_other act_other)
  qed
  with ok' show ?thesis unfolding bids by (simp add: lifecycle_inv_def)
qed

lemma inv_reject:
  assumes inv: "lifecycle_inv db"
    and sel: "select_bid_request_id db bid_id = Some rid"
  shows "lifecycle_inv
           (db\<lparr>request_tbl :=
                 (if number_of_bids db rid = 1
                  then sql_update (\<lambda>r. r_id r = rid)
                         (\<lambda>r. r\<lparr>request_status := ''Awaiting bids''\<rparr>) (request_tbl db)
                  else request_tbl db),
               bid_tbl := sql_update (\<lambda>b. b_id b = bid_id) (\<lambda>b. b\<lparr>bid_status := ''Rejected''\<rparr>)
                            (bid_tbl db)\<rparr>)"
proof -
  let ?bs = "bid_tbl db"
  let ?f = "\<lambda>b. if b_id b = bid_id then b\<lparr>bid_status := ''Rejected''\<rparr> else b"
  let ?rs = "if number_of_bids db rid = 1
             then sql_update (\<lambda>r. r_id r = rid)
                    (\<lambda>r. r\<lparr>request_status := ''Awaiting bids''\<rparr>) (request_tbl db)
             else request_tbl db"
  have bids: "sql_update (\<lambda>b. b_id b = bid_id) (\<lambda>b. b\<lparr>bid_status := ''Rejected''\<rparr>) ?bs = map ?f ?bs"
    by (simp add: sql_update_def)
  have ok: "bids_ok ?bs" using inv by (simp add: lifecycle_inv_def)
  then have pk: "distinct (map b_id ?bs)" by (simp add: bids_ok_def)
  obtain B where B: "B \<in> set ?bs" "b_id B = bid_id" "b_request_id B = rid"
    using sel by (rule bid_row_of_select)
  have target: "b_request_id b = rid" if "b \<in> set ?bs" "b_id b = bid_id" for b
    using key_unique [OF pk that(1) B(1)] that(2) B by auto
  have acc_le: "length (accepted_rows r' (map ?f ?bs)) \<le> length (accepted_rows r' ?bs)" for r'
    unfolding accepted_rows_def
  proof (rule count_map_le)
    fix b assume "b_request_id (?f b) = r' \<and> bid_status (?f b) = ''Accepted''"
    then show "b_request_id b = r' \<and> bid_status b = ''Accepted''"
      by (cases "b_id b = bid_id") simp_all
  qed
  have acc_other: "length (accepted_rows r' (map ?f ?bs)) = length (accepted_rows r' ?bs)"
    if "r' \<noteq> rid" for r'
    unfolding accepted_rows_def
  proof (rule count_map_cong)
    fix b assume "b \<in> set ?bs"
    then show "(b_request_id (?f b) = r' \<and> bid_status (?f b) = ''Accepted'')
               = (b_request_id b = r' \<and> bid_status b = ''Accepted'')"
      using target [of b] that by (cases "b_id b = bid_id") auto
  qed
  have act_other: "length (active_rows r' (map ?f ?bs)) = length (active_rows r' ?bs)"
    if "r' \<noteq> rid" for r'
    unfolding active_rows_def
  proof (rule count_map_cong)
    fix b assume "b \<in> set ?bs"
    then show "(bid_status (?f b) \<noteq> ''Rejected'' \<and> b_request_id (?f b) = r')
               = (bid_status b \<noteq> ''Rejected'' \<and> b_request_id b = r')"
      using target [of b] that by (cases "b_id b = bid_id") auto
  qed
  have ids: "map b_id (map ?f ?bs) = map b_id ?bs" by simp
  have ok': "bids_ok (map ?f ?bs)"
    unfolding bids_ok_def
  proof (intro conjI allI)
    show "distinct (map b_id (map ?f ?bs))" unfolding ids by (rule pk)
  next
    fix r' show "length (accepted_rows r' (map ?f ?bs)) \<le> 1"
    proof -
      have "length (accepted_rows r' ?bs) \<le> 1" using ok by (simp add: bids_ok_def)
      with acc_le [of r'] show ?thesis by (rule le_trans)
    qed
  qed
  have "settled (map ?f ?bs) (r_id r)"
    if r: "r \<in> set ?rs" and c: "request_status r = ''Complete''" for r
  proof -
    have old: "r \<in> set (request_tbl db) \<and> r_id r \<noteq> rid"
    proof (cases "number_of_bids db rid = 1")
      case True
      with r obtain r0 where r0: "r0 \<in> set (request_tbl db)"
          "r = (if r_id r0 = rid then r0\<lparr>request_status := ''Awaiting bids''\<rparr> else r0)"
        using sql_update_member [of r "\<lambda>r. r_id r = rid"
            "\<lambda>r. r\<lparr>request_status := ''Awaiting bids''\<rparr>" "request_tbl db"] by auto
      show ?thesis
      proof (cases "r_id r0 = rid")
        case True
        with r0(2) have "request_status r = ''Awaiting bids''" by simp
        with c show ?thesis by simp
      next
        case False
        with r0 show ?thesis by simp
      qed
    next
      case False
      with r have mem: "r \<in> set (request_tbl db)" by simp
      with c inv have "settled ?bs (r_id r)" by (simp add: lifecycle_inv_def)
      then have "number_of_bids db (r_id r) = 1" by (simp add: settled_def number_of_bids_rows)
      with False have "r_id r \<noteq> rid" by blast
      with mem show ?thesis by simp
    qed
    with c inv have "settled ?bs (r_id r)" by (simp add: lifecycle_inv_def)
    with old show ?thesis by (simp add: settled_def acc_other act_other)
  qed
  with ok' show ?thesis unfolding bids by (simp add: lifecycle_inv_def)
qed


lemma create_request_inv:
  "lifecycle_inv db \<Longrightarrow> lifecycle_inv (db_of (create_request g_user db gw meth form new_id))"
  unfolding create_request_def customer_only_def create_request_view_def
  by (simp add: inv_create default_request_status_def
      split: option.split http_method.split)

lemma update_request_inv:
  "lifecycle_inv db \<Longrightarrow> lifecycle_inv (db_of (update_request g_user db gw meth form ident))"
  unfolding update_request_def customer_only_def update_request_view_def
  by (simp add: inv_update split: option.split http_method.split)

lemma remove_request_inv:
  "lifecycle_inv db \<Longrightarrow> lifecycle_inv (db_of (remove_request g_user db gw ident))"
  unfolding remove_request_def customer_only_def remove_request_view_def
  by (simp add: inv_delete split: option.split)

lemma submit_bid_inv:
  assumes "lifecycle_inv db" and "new_id \<notin> b_id ` set (bid_tbl db)"
  shows "lifecycle_inv (db_of (submit_bid g_user db gw meth amount ident new_id))"
proof -
  let ?new = "\<lparr>b_id = new_id, b_request_id = ident, b_created_by = c,
               bid_amount = amount, bid_status = default_bid_status\<rparr>"
  have "lifecycle_inv
          (db\<lparr>request_tbl := sql_update (\<lambda>r. r_id r = ident)
                               (\<lambda>r. r\<lparr>request_status := ''Bid(s) received''\<rparr>) (request_tbl db),
              bid_tbl := sql_insert
                           \<lparr>b_id = new_id, b_request_id = ident, b_created_by = c,
                            bid_amount = amount, bid_status = default_bid_status\<rparr> (bid_tbl db)\<rparr>)" for c
    using inv_submit [where db = db and st = "''Bid(s) received''"
        and new = "\<lparr>b_id = new_id, b_request_id = ident, b_created_by = c,
                    bid_amount = amount, bid_status = default_bid_status\<rparr>"] assms
    by (simp add: default_bid_status_def)
  with assms(1) show ?thesis
    unfolding submit_bid_def supplier_only_def submit_bid_view_def
    by (simp split: option.split http_method.split)
qed

lemma accept_bid_inv:
  "lifecycle_inv db \<Longrightarrow> lifecycle_inv (db_of (accept_bid g_user db gw bid_id))"
  unfolding accept_bid_def customer_only_def accept_bid_view_def
  by (simp add: inv_accept split: option.split)

lemma reject_bid_inv:
  assumes inv: "lifecycle_inv db"
  shows "lifecycle_inv (db_of (reject_bid g_user db gw bid_id))"
proof (cases "select_bid_request_id db bid_id")
  case None
  then have "db_of (reject_bid g_user db gw bid_id) = db"
    by (simp add: reject_bid_def customer_only_def reject_bid_view_def split: option.split)
  with inv show ?thesis by simp
next
  case (Some rid)
  let ?db' = "db\<lparr>request_tbl :=
                 (if number_of_bids db rid = 1
                  then sql_update (\<lambda>r. r_id r = rid)
                         (\<lambda>r. r\<lparr>request_status := ''Awaiting bids''\<rparr>) (request_tbl db)
                  else request_tbl db),
               bid_tbl := sql_update (\<lambda>b. b_id b = bid_id) (\<lambda>b. b\<lparr>bid_status := ''Rejected''\<rparr>)
                            (bid_tbl db)\<rparr>"
  have "db_of (reject_bid g_user db gw bid_id) = db \<or> db_of (reject_bid g_user db gw bid_id) = ?db'"
    using Some
    by (simp add: reject_bid_def customer_only_def reject_bid_view_def Let_def split: option.split)
  with inv inv_reject [OF inv Some] show ?thesis by metis
qed

lemma reachable_inv: "reachable db \<Longrightarrow> lifecycle_inv db"
proof (induction rule: reachable.induct)
  case (r_init db)
  then show ?case
    by (simp add: empty_state_def lifecycle_inv_def bids_ok_def accepted_rows_def)
qed (simp_all add: create_request_inv update_request_inv remove_request_inv submit_bid_inv
       accept_bid_inv reject_bid_inv)

text \<open>
  Claim C3, amended. In every state reachable by the lifecycle operations from a state
  with no request and no bid, every request has at most one bid with status Accepted,
  and a request whose status is Complete has exactly one bid with status Accepted.
\<close>

theorem reachable_accepted_bids:
  assumes "reachable db"
  shows "\<forall>r\<in>set (request_tbl db).
           accepted_on db (r_id r) \<le> 1 \<and>
           (request_status r = ''Complete'' \<longrightarrow> accepted_on db (r_id r) = 1)"
  using reachable_inv [OF assms]
  by (simp add: lifecycle_inv_def bids_ok_def settled_def accepted_on_rows)

subsection \<open>Runs of the lifecycle and the terminal state\<close>

lemma demo_run_created:
  "reachable (no_bid_db ''Awaiting bids'')"
proof -
  have r0: "reachable no_request_db"
    by (rule r_init) (simp add: empty_state_def no_request_db_def)
  have fresh: "1 \<notin> r_id ` set (request_tbl no_request_db)" by (simp add: no_request_db_def)
  have "db_of (create_request (Some customer1) no_request_db None POST (demo_form 20 25) 1)
        = no_bid_db ''Awaiting bids''"
    by (simp add: demo_defs route_defs more_route_defs)
  with r_create [OF r0 fresh, of "Some customer1" None POST "demo_form 20 25"] show ?thesis by simp
qed

lemma demo_run_bid: "reachable (one_bid_db ''Bid(s) received'' ''Pending'')"
proof -
  have fresh: "1 \<notin> b_id ` set (bid_tbl (no_bid_db ''Awaiting bids''))" by (simp add: no_bid_db_def)
  have "db_of (submit_bid (Some supplier1) (no_bid_db ''Awaiting bids'') None POST ''100'' 1 1)
        = one_bid_db ''Bid(s) received'' ''Pending''"
    by (simp add: demo_defs route_defs more_route_defs)
  with r_submit [OF demo_run_created fresh, of "Some supplier1" None POST "''100''" 1] show ?thesis by simp
qed

lemma demo_run_accepted: "reachable (one_bid_db ''Complete'' ''Accepted'')"
proof -
  have "db_of (accept_bid (Some customer1) (one_bid_db ''Bid(s) received'' ''Pending'') None 1)
        = one_bid_db ''Complete'' ''Accepted''"
    by (simp add: demo_defs route_defs more_route_defs)
  with r_accept [OF demo_run_bid, of "Some customer1" None 1] show ?thesis by simp
qed

lemma demo_run_late_bid: "reachable (two_bids_db ''Bid(s) received'' ''Accepted'' ''Pending'')"
proof -
  have fresh: "2 \<notin> b_id ` set (bid_tbl (one_bid_db ''Complete'' ''Accepted''))"
    by (simp add: one_bid_db_def demo_bid_def)
  have "db_of (submit_bid (Some supplier3) (one_bid_db ''Complete'' ''Accepted'') None POST ''100'' 1 2)
        = two_bids_db ''Bid(s) received'' ''Accepted'' ''Pending''"
    by (simp add: demo_defs route_defs more_route_defs)
  with r_submit [OF demo_run_accepted fresh, of "Some supplier3" None POST "''100''" 1] show ?thesis by simp
qed

text \<open>
  Claim C3, as stated, fails. The state below is reached by create_request, submit_bid,
  accept_bid and a second submit_bid on the then Complete request: the request has
  exactly one Accepted bid and its status is "Bid(s) received", not Complete.
\<close>

theorem accepted_bid_without_complete:
  "reachable (two_bids_db ''Bid(s) received'' ''Accepted'' ''Pending'')
   \<and> request_tbl (two_bids_db ''Bid(s) received'' ''Accepted'' ''Pending'')
       = [demo_request ''Bid(s) received'']
   \<and> r_id (demo_request ''Bid(s) received'') = 1
   \<and> request_status (demo_request ''Bid(s) received'') \<noteq> ''Complete''
   \<and> accepted_on (two_bids_db ''Bid(s) received'' ''Accepted'' ''Pending'') 1 = 1"
  using demo_run_late_bid
  by (simp add: demo_defs accepted_on_def bids_on_def)

theorem reachable_accepted_bids_witness:
  "reachable (one_bid_db ''Complete'' ''Accepted'')
   \<and> request_status (demo_request ''Complete'') = ''Complete''
   \<and> accepted_on (one_bid_db ''Complete'' ''Accepted'') (r_id (demo_request ''Complete'')) = 1"
proof -
  have m: "demo_request ''Complete'' \<in> set (request_tbl (one_bid_db ''Complete'' ''Accepted''))"
    by (simp add: one_bid_db_def)
  from reachable_accepted_bids [OF demo_run_accepted, THEN bspec, OF m] demo_run_accepted
  show ?thesis by (simp add: demo_request_def)
qed










text \<open>
  Claim C9. For every database and every caller of the supplier dashboard, with \<open>C\<close> the
  caller's company: the first list holds exactly the requests that are not Complete and
  have no bid from \<open>C\<close>; the second holds exactly the requests that are not Complete and
  have at least one bid from \<open>C\<close>, of any status; the third holds exactly the Complete
  requests on which \<open>C\<close> has a bid that is not Rejected. No request row is in two of the
  three lists.
\<close>

theorem supplier_dashboard_partitions:
  "set (ctx_live_requests_not_bid (supplier_requests_view db g_user))
     = {r \<in> set (request_tbl db). request_status r \<noteq> ''Complete''
          \<and> spec_bids_from db (u_company g_user) (r_id r) = []}
   \<and> fst ` set (ctx_requests_bid (supplier_requests_view db g_user))
     = {r \<in> set (request_tbl db). request_status r \<noteq> ''Complete''
          \<and> spec_bids_from db (u_company g_user) (r_id r) \<noteq> []}
   \<and> fst ` set (ctx_requests_bid_won (supplier_requests_view db g_user))
     = {r \<in> set (request_tbl db). request_status r = ''Complete''
          \<and> (\<exists>b\<in>set (spec_bids_from db (u_company g_user) (r_id r)). bid_status b \<noteq> ''Rejected'')}
   \<and> set (ctx_live_requests_not_bid (supplier_requests_view db g_user))
       \<inter> fst ` set (ctx_requests_bid (supplier_requests_view db g_user)) = {}
   \<and> set (ctx_live_requests_not_bid (supplier_requests_view db g_user))
       \<inter> fst ` set (ctx_requests_bid_won (supplier_requests_view db g_user)) = {}
   \<and> fst ` set (ctx_requests_bid (supplier_requests_view db g_user))
       \<inter> fst ` set (ctx_requests_bid_won (supplier_requests_view db g_user)) = {}"
proof -
  let ?C = "u_company g_user"
  have a: "set (live_requests_not_bid db ?C)
           = {r \<in> set (request_tbl db). request_status r \<noteq> ''Complete''
                \<and> spec_bids_from db ?C (r_id r) = []}"
    using live_requests_not_bid_iff [of _ db ?C] by blast
  have b: "fst ` set (requests_bid db ?C)
           = {r \<in> set (request_tbl db). request_status r \<noteq> ''Complete''
                \<and> spec_bids_from db ?C (r_id r) \<noteq> []}"
    using requests_bid_iff [of _ db ?C] by blast
  have c: "fst ` set (requests_bid_won db ?C)
           = {r \<in> set (request_tbl db). request_status r = ''Complete''
                \<and> (\<exists>b\<in>set (spec_bids_from db ?C (r_id r)). bid_status b \<noteq> ''Rejected'')}"
    using requests_bid_won_iff [of _ db ?C] by blast
  have ab: "set (live_requests_not_bid db ?C) \<inter> fst ` set (requests_bid db ?C) = {}"
    unfolding a b by blast
  have ac: "set (live_requests_not_bid db ?C) \<inter> fst ` set (requests_bid_won db ?C) = {}"
    unfolding a c by blast
  have bc: "fst ` set (requests_bid db ?C) \<inter> fst ` set (requests_bid_won db ?C) = {}"
    unfolding b c by blast
  show ?thesis
    unfolding supplier_requests_view_def using a b c ab ac bc by simp
qed

theorem supplier_dashboard_partitions_witness:
  "ctx_live_requests_not_bid
     (supplier_requests_view (one_bid_db ''Bid(s) received'' ''Pending'') supplier3)
     = [demo_request ''Bid(s) received'']
   \<and> ctx_requests_bid (supplier_requests_view (one_bid_db ''Bid(s) received'' ''Pending'') supplier1)
     = [(demo_request ''Bid(s) received'', Some 1)]
   \<and> ctx_requests_bid_won (supplier_requests_view (one_bid_db ''Bid(s) received'' ''Pending'') supplier1)
     = []
   \<and> spec_bids_from (one_bid_db ''Bid(s) received'' ''Pending'') (u_company supplier1) 1 = [demo_bid 1 5 ''Pending'']
   \<and> set (ctx_live_requests_not_bid
            (supplier_requests_view (one_bid_db ''Bid(s) received'' ''Pending'') supplier1))
       \<inter> fst ` set (ctx_requests_bid
            (supplier_requests_view (one_bid_db ''Bid(s) received'' ''Pending'') supplier1)) = {}"
proof -
  have 1: "ctx_live_requests_not_bid
     (supplier_requests_view (one_bid_db ''Bid(s) received'' ''Pending'') supplier3)
     = [demo_request ''Bid(s) received'']"
    by (simp add: demo_defs dashboard_defs)
  have 2: "ctx_requests_bid (supplier_requests_view (one_bid_db ''Bid(s) received'' ''Pending'') supplier1)
     = [(demo_request ''Bid(s) received'', Some 1)]"
    by (simp add: demo_defs dashboard_defs)
  have 3: "ctx_requests_bid_won (supplier_requests_view (one_bid_db ''Bid(s) received'' ''Pending'') supplier1)
     = []"
    by (simp add: demo_defs dashboard_defs)
  have 4: "spec_bids_from (one_bid_db ''Bid(s) received'' ''Pending'') (u_company supplier1) 1 = [demo_bid 1 5 ''Pending'']"
    by (simp add: demo_defs dashboard_defs)
  have 5: "set (ctx_live_requests_not_bid
            (supplier_requests_view (one_bid_db ''Bid(s) received'' ''Pending'') supplier1))
       \<inter> fst ` set (ctx_requests_bid
            (supplier_requests_view (one_bid_db ''Bid(s) received'' ''Pending'') supplier1)) = {}"
    using supplier_dashboard_partitions [of "one_bid_db ''Bid(s) received'' ''Pending''" supplier1]
    by (elim conjE)
  show ?thesis
    by (intro conjI) (rule 1 2 3 4 5)+
qed

end
